theory Spec2Isabelle
  imports Main
begin

section \<open>The items list header\<close>

subsection \<open>Props, local state and effects\<close>

text \<open>
  \<^verbatim>\<open>ItemsListHeaderProps\<close>: four optional props. An optional prop that the caller leaves
  out is \<open>None\<close>. The callback \<^verbatim>\<open>onSearch\<close> is an external function value; the model
  keeps it as an opaque value of type \<open>'cb\<close> and records each invocation of it.
\<close>

record 'cb ItemsListHeaderProps =
  onSearch :: "'cb option"
  title :: "string option"
  initialSearchQuery :: "string option"
  description :: "string option"

text \<open>The two \<^verbatim>\<open>useState\<close> cells of the component.\<close>

record view_state =
  searchQuery :: string
  isCreateModalOpen :: bool

text \<open>
  One invocation of an external callback with its argument. A handler's effect on the
  outside is the list of invocations it makes, in order.
\<close>

datatype 'cb call = Call 'cb string

text \<open>
  The only way a handler of this component can fault in JavaScript is by calling a value
  that is not a function: \<^verbatim>\<open>onSearch(...)\<close> with \<^verbatim>\<open>onSearch\<close> undefined throws a
  \<^verbatim>\<open>TypeError\<close>. A call of a supplied callback is recorded as an invocation; whether
  that call returns is the callback's own, and is treated with the completion of a
  handler below.
\<close>

datatype fault = TypeError

type_synonym 'cb outcome = "fault + (view_state \<times> 'cb call list)"

definition invoke :: "'cb option \<Rightarrow> string \<Rightarrow> fault + 'cb call list" where
  "invoke f arg = (case f of None \<Rightarrow> Inl TypeError | Some cb \<Rightarrow> Inr [Call cb arg])"

text \<open>The truthiness test \<^verbatim>\<open>if (onSearch)\<close> on an optional function value.\<close>

definition truthy :: "'a option \<Rightarrow> bool" where
  "truthy v = (case v of None \<Rightarrow> False | Some _ \<Rightarrow> True)"

text \<open>A \<^verbatim>\<open>KeyboardEvent\<close>, as far as the handlers read it.\<close>

record keyboard_event =
  key :: string

subsection \<open>The query parameters and the initial state\<close>

text \<open>
  \<^verbatim>\<open>useSearchParams()\<close> gives the parsed query of the current URL: the decoded name/value
  pairs in the order of the URL. \<^verbatim>\<open>get(name)\<close> is the value of the first pair with that
  name, or \<^verbatim>\<open>null\<close>.
\<close>

type_synonym search_params = "(string \<times> string) list"

fun get :: "search_params \<Rightarrow> string \<Rightarrow> string option" where
  "get [] nm = None"
| "get ((k, v) # ps) nm = (if k = nm then Some v else get ps nm)"

text \<open>The operator \<^verbatim>\<open>??\<close>: the right operand only where the left one is null.\<close>

definition nullish :: "'a option \<Rightarrow> 'a \<Rightarrow> 'a" where
  "nullish v d = (case v of None \<Rightarrow> d | Some x \<Rightarrow> x)"

text \<open>
  The state at mount: \<^verbatim>\<open>useState(searchParams.get("q") ?? "")\<close> and
  \<^verbatim>\<open>useState(false)\<close>. The component receives its props, and reads none of them here.
\<close>

definition initial_state :: "'cb ItemsListHeaderProps \<Rightarrow> search_params \<Rightarrow> view_state" where
  "initial_state props searchParams =
     \<lparr>searchQuery = nullish (get searchParams ''q'') '''', isCreateModalOpen = False\<rparr>"

subsection \<open>The handlers\<close>

text \<open>The state setters returned by \<^verbatim>\<open>useState\<close>.\<close>

definition setSearchQuery :: "string \<Rightarrow> view_state \<Rightarrow> view_state" where
  "setSearchQuery v st = st\<lparr>searchQuery := v\<rparr>"

definition setIsCreateModalOpen :: "bool \<Rightarrow> view_state \<Rightarrow> view_state" where
  "setIsCreateModalOpen b st = st\<lparr>isCreateModalOpen := b\<rparr>"

definition handleSearch :: "'cb ItemsListHeaderProps \<Rightarrow> view_state \<Rightarrow> 'cb outcome" where
  "handleSearch props st =
     (if truthy (onSearch props)
      then (case invoke (onSearch props) (searchQuery st) of
              Inl e \<Rightarrow> Inl e
            | Inr calls \<Rightarrow> Inr (st, calls))
      else Inr (st, []))"

definition handleClearSearch :: "'cb ItemsListHeaderProps \<Rightarrow> view_state \<Rightarrow> 'cb outcome" where
  "handleClearSearch props st =
     (let st' = setSearchQuery '''' st in
      if truthy (onSearch props)
      then (case invoke (onSearch props) '''' of
              Inl e \<Rightarrow> Inl e
            | Inr calls \<Rightarrow> Inr (st', calls))
      else Inr (st', []))"

definition handleKeyDown ::
  "'cb ItemsListHeaderProps \<Rightarrow> view_state \<Rightarrow> keyboard_event \<Rightarrow> 'cb outcome" where
  "handleKeyDown props st e =
     (if key e = ''Enter'' then handleSearch props st else Inr (st, []))"

text \<open>The inline handler \<^verbatim>\<open>onClose={() => setIsCreateModalOpen(false)}\<close>.\<close>

definition onClose :: "view_state \<Rightarrow> view_state" where
  "onClose st = setIsCreateModalOpen False st"

subsection \<open>What the header renders\<close>

text \<open>
  The values the component passes down on a render: \<^verbatim>\<open>title\<close>, \<^verbatim>\<open>description\<close> and
  \<^verbatim>\<open>searchQuery\<close> to \<^verbatim>\<open>ActionHeader\<close>, \<^verbatim>\<open>isOpen\<close> to \<^verbatim>\<open>CreateItemModal\<close>. A
  destructuring default (\<^verbatim>\<open>title = "Items"\<close>) applies where the prop is undefined.
\<close>

record header_view =
  shown_title :: string
  shown_description :: string
  shown_searchQuery :: string
  modal_isOpen :: bool

definition ItemsListHeader :: "'cb ItemsListHeaderProps \<Rightarrow> view_state \<Rightarrow> header_view" where
  "ItemsListHeader props st =
     \<lparr>shown_title = nullish (title props) ''Items'',
      shown_description = nullish (description props) ''Manage your items'',
      shown_searchQuery = searchQuery st,
      modal_isOpen = isCreateModalOpen st\<rparr>"

subsection \<open>The operations handed to the children\<close>

text \<open>
  The handlers the component passes to \<^verbatim>\<open>ActionHeader\<close> and \<^verbatim>\<open>CreateItemModal\<close>, named
  by the prop that carries them and with the argument the child calls them with:
  \<^verbatim>\<open>onSeachQuery={setSearchQuery}\<close>, \<^verbatim>\<open>onKeyDown={handleKeyDown}\<close>,
  \<^verbatim>\<open>onClearSearch={handleClearSearch}\<close>, \<^verbatim>\<open>onSetModalOpen={setIsCreateModalOpen}\<close> and
  \<^verbatim>\<open>onClose\<close>. \<open>Search\<close> is \<^verbatim>\<open>handleSearch\<close> called on its own; the component
  passes it to no child.
\<close>

datatype operation =
    OnSeachQuery string
  | OnKeyDown keyboard_event
  | OnClearSearch
  | OnSetModalOpen bool
  | OnClose
  | Search

fun perform :: "'cb ItemsListHeaderProps \<Rightarrow> operation \<Rightarrow> view_state \<Rightarrow> 'cb outcome" where
  "perform props (OnSeachQuery v) st = Inr (setSearchQuery v st, [])"
| "perform props (OnKeyDown e) st = handleKeyDown props st e"
| "perform props OnClearSearch st = handleClearSearch props st"
| "perform props (OnSetModalOpen b) st = Inr (setIsCreateModalOpen b st, [])"
| "perform props OnClose st = Inr (onClose st, [])"
| "perform props Search st = handleSearch props st"

text \<open>
  A sequence of operations, each handled on the state the previous one left (React
  renders again between two events). A fault ends the run; the invocations accumulate.
\<close>

fun run :: "'cb ItemsListHeaderProps \<Rightarrow> operation list \<Rightarrow> view_state \<Rightarrow> 'cb outcome" where
  "run props [] st = Inr (st, [])"
| "run props (x # xs) st =
     (case perform props x st of
        Inl e \<Rightarrow> Inl e
      | Inr (st', calls) \<Rightarrow>
          (case run props xs st' of
             Inl e \<Rightarrow> Inl e
           | Inr (st'', calls') \<Rightarrow> Inr (st'', calls @ calls')))"

text \<open>
  Modelled from the spec: \<^verbatim>\<open>ActionHeader\<close> (\<^verbatim>\<open>@/components/common/ActionHeader\<close>) is
  not among the sources. Its create trigger is what the spec says of it, "on
  create-trigger activation, open the create-item dialog": it calls the
  \<^verbatim>\<open>onSetModalOpen\<close> it was given with \<^verbatim>\<open>true\<close>.
\<close>

definition createTrigger :: operation where
  "createTrigger = OnSetModalOpen True"

subsection \<open>Callbacks that throw\<close>

text \<open>
  \<^verbatim>\<open>onSearch\<close> is the caller's code: a call of it returns or throws. The handlers have no
  \<^verbatim>\<open>try\<close>/\<^verbatim>\<open>catch\<close>, so an exception thrown by the callback leaves the handler that
  made the call. \<open>returns cb arg\<close> says whether the call of \<open>cb\<close> on \<open>arg\<close> returns.
  A handler ends in one of three ways: it returns, it faults by itself, or a callback it
  called threw. Each handler makes its call, if any, as its last statement, so the state
  it has set by then stands. For a sequence of operations the completion is that of the
  first handler that does not return.
\<close>

datatype 'cb completion = Normal | OwnFault fault | CallbackThrew 'cb string

fun unwind :: "('cb \<Rightarrow> string \<Rightarrow> bool) \<Rightarrow> 'cb call list \<Rightarrow> 'cb completion" where
  "unwind returns [] = Normal"
| "unwind returns (Call cb arg # calls) =
     (if returns cb arg then unwind returns calls else CallbackThrew cb arg)"

definition completion :: "('cb \<Rightarrow> string \<Rightarrow> bool) \<Rightarrow> 'cb outcome \<Rightarrow> 'cb completion" where
  "completion returns r =
     (case r of Inl e \<Rightarrow> OwnFault e | Inr (st, calls) \<Rightarrow> unwind returns calls)"

section \<open>The user entry of the navigation\<close>

record user =
  name :: string
  email :: string
  avatar :: string

text \<open>A React element tree: text, or an element with its props and children.\<close>

datatype node = Text string | Element string "(string \<times> string) list" "node list"

definition NavUser :: "user \<Rightarrow> node" where
  "NavUser u =
     Element ''SidebarMenuButton''
       [(''size'', ''lg''),
        (''className'',
         ''data-[state=open]:bg-sidebar-accent data-[state=open]:text-sidebar-accent-foreground'')]
       [Element ''Avatar'' [(''className'', ''h-8 w-8 rounded-lg grayscale'')]
          [Element ''AvatarImage'' [(''src'', avatar u), (''alt'', name u)] [],
           Element ''AvatarFallback'' [(''className'', ''rounded-lg'')] [Text ''CN'']],
        Element ''div'' [(''className'', ''grid flex-1 text-left text-sm leading-tight'')]
          [Element ''span'' [(''className'', ''truncate font-medium'')] [Text (name u)],
           Element ''span'' [(''className'', ''truncate text-xs text-muted-foreground'')]
             [Text (email u)]]]"

fun tag :: "node \<Rightarrow> string" where
  "tag (Text s) = []"
| "tag (Element t attrs cs) = t"

fun attr :: "node \<Rightarrow> string \<Rightarrow> string option" where
  "attr (Text s) a = None"
| "attr (Element t attrs cs) a = map_of attrs a"

text \<open>The text leaves of a tree, in document order, and all its nodes.\<close>

fun texts :: "node \<Rightarrow> string list" where
  "texts (Text s) = [s]"
| "texts (Element t attrs cs) = concat (map texts cs)"

fun nodes :: "node \<Rightarrow> node list" where
  "nodes (Text s) = [Text s]"
| "nodes (Element t attrs cs) = Element t attrs cs # concat (map nodes cs)"

text \<open>
  Modelled from the spec: the avatar elements (\<^verbatim>\<open>@/components/ui/avatar\<close>) are not among
  the sources. The spec says of them that the avatar image is displayed "with a fallback
  glyph when the image fails to load or is absent". So inside an \<^verbatim>\<open>Avatar\<close> the image is
  what shows when its source loads, and the fallback's children are what shows otherwise.
  Which sources load is the environment's, the parameter \<open>loads\<close>.
\<close>

definition image_loads :: "(string \<Rightarrow> bool) \<Rightarrow> node \<Rightarrow> bool" where
  "image_loads loads c =
     (tag c = ''AvatarImage'' \<and> (case attr c ''src'' of None \<Rightarrow> False | Some s \<Rightarrow> loads s))"

definition avatar_children :: "(string \<Rightarrow> bool) \<Rightarrow> node list \<Rightarrow> node list" where
  "avatar_children loads cs =
     (if list_ex (image_loads loads) cs
      then filter (\<lambda>c. tag c \<noteq> ''AvatarFallback'') cs
      else filter (\<lambda>c. tag c \<noteq> ''AvatarImage'') cs)"

fun display :: "(string \<Rightarrow> bool) \<Rightarrow> node \<Rightarrow> node" where
  "display loads (Text s) = Text s"
| "display loads (Element t attrs cs) =
     Element t attrs
       (let shown = map (display loads) cs
        in if t = ''Avatar'' then avatar_children loads shown else shown)"

section \<open>Properties of the items list header\<close>

subsection \<open>Auxiliary facts\<close>

lemma get_first_match: "nm \<notin> fst ` set pre \<Longrightarrow> get (pre @ (nm, v) # rest) nm = Some v"
  by (induction pre) auto

lemma get_no_match: "nm \<notin> fst ` set ps \<Longrightarrow> get ps nm = None"
  by (induction ps) auto

lemma handleSearch_cases:
  "handleSearch props st =
     Inr (st, case onSearch props of None \<Rightarrow> [] | Some cb \<Rightarrow> [Call cb (searchQuery st)])"
  by (simp add: handleSearch_def truthy_def invoke_def split: option.splits)

lemma handleClearSearch_cases:
  "handleClearSearch props st =
     Inr (st\<lparr>searchQuery := ''''\<rparr>, case onSearch props of None \<Rightarrow> [] | Some cb \<Rightarrow> [Call cb ''''])"
  by (simp add: handleClearSearch_def setSearchQuery_def truthy_def invoke_def
      split: option.splits)






lemma run_typing:
  "run props (map OnSeachQuery vs @ [OnSeachQuery v]) st = Inr (st\<lparr>searchQuery := v\<rparr>, [])"
  by (induction vs arbitrary: st) (simp_all add: setSearchQuery_def)

lemma perform_ignores_initialSearchQuery:
  "perform (props\<lparr>initialSearchQuery := x\<rparr>) y st = perform props y st"
  by (cases y) (simp_all add: handleKeyDown_def handleSearch_cases handleClearSearch_cases)

text \<open>
  C1. Whatever the current search text is, when an \<^verbatim>\<open>onSearch\<close> callback is supplied, the
  key-down handler on an event with key \<^verbatim>\<open>"Enter"\<close> invokes that callback exactly once,
  with the current search text.
\<close>

theorem enter_invokes_onSearch_once:
  assumes "onSearch props = Some cb" and "key e = ''Enter''"
  shows "handleKeyDown props st e = Inr (st, [Call cb (searchQuery st)])"
  using assms by (simp add: handleKeyDown_def handleSearch_def truthy_def invoke_def)

theorem enter_invokes_onSearch_once_witness:
  "onSearch \<lparr>onSearch = Some ''cb'', title = None, initialSearchQuery = None,
              description = None\<rparr> = Some ''cb''
   \<and> key \<lparr>key = ''Enter''\<rparr> = ''Enter''
   \<and> handleKeyDown
        \<lparr>onSearch = Some ''cb'', title = None, initialSearchQuery = None, description = None\<rparr>
        \<lparr>searchQuery = ''foo'', isCreateModalOpen = False\<rparr> \<lparr>key = ''Enter''\<rparr>
      = Inr (\<lparr>searchQuery = ''foo'', isCreateModalOpen = False\<rparr>, [Call ''cb'' ''foo''])"
proof -
  let ?P = "\<lparr>onSearch = Some ''cb'', title = None, initialSearchQuery = None,
             description = None\<rparr>"
  have p: "onSearch ?P = Some ''cb''" by simp
  have k: "key \<lparr>key = ''Enter''\<rparr> = ''Enter''" by simp
  show ?thesis
    using enter_invokes_onSearch_once
      [OF p k, of "\<lparr>searchQuery = ''foo'', isCreateModalOpen = False\<rparr>"]
    by simp
qed

text \<open>
  C2. From any state, the clear-search handler leaves the search text empty; when an
  \<^verbatim>\<open>onSearch\<close> callback is supplied it invokes it exactly once, with the empty string, and
  when none is supplied it invokes nothing.
\<close>

theorem clear_search_resets_and_notifies:
  "handleClearSearch props st =
     Inr (st\<lparr>searchQuery := ''''\<rparr>,
          case onSearch props of None \<Rightarrow> [] | Some cb \<Rightarrow> [Call cb ''''])"
  by (rule handleClearSearch_cases)

text \<open>
  C3. Without an \<^verbatim>\<open>onSearch\<close> callback, pressing Enter and clearing the search both
  return without a fault and without any callback invocation: the guard skips the call
  that would fault on an undefined callback.
\<close>

theorem no_callback_no_fault:
  assumes "onSearch props = None"
  shows "handleKeyDown props st \<lparr>key = ''Enter''\<rparr> = Inr (st, [])
       \<and> handleClearSearch props st = Inr (st\<lparr>searchQuery := ''''\<rparr>, [])"
  using assms
  by (simp add: handleKeyDown_def handleSearch_def handleClearSearch_def setSearchQuery_def
      truthy_def)

theorem no_callback_no_fault_witness:
  "onSearch \<lparr>onSearch = (None :: string option), title = None, initialSearchQuery = None,
              description = None\<rparr> = None
   \<and> handleKeyDown
        \<lparr>onSearch = (None :: string option), title = None, initialSearchQuery = None,
          description = None\<rparr>
        \<lparr>searchQuery = ''foo'', isCreateModalOpen = True\<rparr> \<lparr>key = ''Enter''\<rparr>
      = Inr (\<lparr>searchQuery = ''foo'', isCreateModalOpen = True\<rparr>, [])
   \<and> handleClearSearch
        \<lparr>onSearch = (None :: string option), title = None, initialSearchQuery = None,
          description = None\<rparr>
        \<lparr>searchQuery = ''foo'', isCreateModalOpen = True\<rparr>
      = Inr (\<lparr>searchQuery = '''', isCreateModalOpen = True\<rparr>, [])"
proof -
  let ?P = "\<lparr>onSearch = (None :: string option), title = None, initialSearchQuery = None,
             description = None\<rparr>"
  have absent: "onSearch ?P = None" by simp
  show ?thesis
    using no_callback_no_fault
      [OF absent, of "\<lparr>searchQuery = ''foo'', isCreateModalOpen = True\<rparr>"]
    by simp
qed

text \<open>
  C4. The search text at mount is the value of the first \<^verbatim>\<open>q\<close> parameter of the URL's
  query when there is one, and the empty string when the query has no \<^verbatim>\<open>q\<close>.
\<close>

theorem initial_search_text_from_q:
  "(''q'' \<notin> fst ` set pre \<longrightarrow>
      searchQuery (initial_state props (pre @ (''q'', v) # rest)) = v)
   \<and> (''q'' \<notin> fst ` set ps \<longrightarrow> searchQuery (initial_state props ps) = '''')"
  by (simp add: initial_state_def nullish_def get_first_match get_no_match)

theorem initial_search_text_from_q_witness:
  "''q'' \<notin> fst ` set [(''page'', ''2'')]
   \<and> searchQuery
        (initial_state
           \<lparr>onSearch = Some ''cb'', title = None, initialSearchQuery = None, description = None\<rparr>
           [(''page'', ''2''), (''q'', ''widget''), (''q'', ''other'')]) = ''widget''
   \<and> searchQuery
        (initial_state
           \<lparr>onSearch = Some ''cb'', title = None, initialSearchQuery = None, description = None\<rparr>
           [(''page'', ''2'')]) = ''''"
proof -
  have absent: "''q'' \<notin> fst ` set [(''page'', ''2'')]" by simp
  show ?thesis
    using absent
      initial_search_text_from_q
        [of "[(''page'', ''2'')]"
            "\<lparr>onSearch = Some ''cb'', title = None, initialSearchQuery = None,
              description = None\<rparr>"
            "''widget''" "[(''q'', ''other'')]" "[(''page'', ''2'')]"]
    by simp
qed

text \<open>
  C5. The modal-open state is false at mount. From any state, the create trigger sets it
  to true and the modal's close action sets it to false; neither touches the search text
  or invokes a callback, and the flag passed to the modal is the state's.
\<close>

theorem create_modal_open_close:
  "isCreateModalOpen (initial_state props sp) = False
   \<and> perform props createTrigger st = Inr (st\<lparr>isCreateModalOpen := True\<rparr>, [])
   \<and> perform props OnClose st = Inr (st\<lparr>isCreateModalOpen := False\<rparr>, [])
   \<and> modal_isOpen (ItemsListHeader props (st\<lparr>isCreateModalOpen := b\<rparr>)) = b"
  by (simp add: initial_state_def createTrigger_def onClose_def setIsCreateModalOpen_def
      ItemsListHeader_def)

text \<open>
  C6. Typing a text \<open>v\<close> into the search field only sets the search text to \<open>v\<close>: no
  callback is invoked and the modal-open state stays as it was, so the value shown is the
  typed one. The same holds after any sequence of text changes that ends with \<open>v\<close>.
\<close>

theorem text_change_is_local:
  "perform props (OnSeachQuery v) st = Inr (st\<lparr>searchQuery := v\<rparr>, [])
   \<and> isCreateModalOpen (st\<lparr>searchQuery := v\<rparr>) = isCreateModalOpen st
   \<and> shown_searchQuery (ItemsListHeader props (st\<lparr>searchQuery := v\<rparr>)) = v
   \<and> run props (map OnSeachQuery vs @ [OnSeachQuery v]) st = Inr (st\<lparr>searchQuery := v\<rparr>, [])"
  by (simp add: setSearchQuery_def ItemsListHeader_def run_typing)




text \<open>
  C9. The prop \<^verbatim>\<open>initialSearchQuery\<close> is never read: whatever its value, the state at
  mount is the one the \<^verbatim>\<open>q\<close> parameter gives, and every operation and the rendered
  values are the same.
\<close>

theorem initialSearchQuery_ignored:
  "initial_state (props\<lparr>initialSearchQuery := x\<rparr>) sp = initial_state props sp
   \<and> searchQuery (initial_state (props\<lparr>initialSearchQuery := x\<rparr>) sp)
       = nullish (get sp ''q'') ''''
   \<and> perform (props\<lparr>initialSearchQuery := x\<rparr>) y st = perform props y st
   \<and> ItemsListHeader (props\<lparr>initialSearchQuery := x\<rparr>) st = ItemsListHeader props st"
  by (simp add: initial_state_def ItemsListHeader_def perform_ignores_initialSearchQuery)

text \<open>
  C10. The key-down handler never changes the state, neither the search text nor the
  modal-open state, whatever the key; and on a key other than \<^verbatim>\<open>"Enter"\<close> it invokes no
  callback.
\<close>

theorem keydown_frame:
  "(\<exists>calls. handleKeyDown props st e = Inr (st, calls))
   \<and> (key e \<noteq> ''Enter'' \<longrightarrow> handleKeyDown props st e = Inr (st, []))"
  by (simp add: handleKeyDown_def handleSearch_cases)

theorem keydown_frame_witness:
  "key \<lparr>key = ''a''\<rparr> \<noteq> ''Enter''
   \<and> handleKeyDown
        \<lparr>onSearch = Some ''cb'', title = None, initialSearchQuery = None, description = None\<rparr>
        \<lparr>searchQuery = ''foo'', isCreateModalOpen = True\<rparr> \<lparr>key = ''a''\<rparr>
      = Inr (\<lparr>searchQuery = ''foo'', isCreateModalOpen = True\<rparr>, [])"
proof -
  have other: "key \<lparr>key = ''a''\<rparr> \<noteq> ''Enter''" by simp
  show ?thesis
    using other
      keydown_frame
        [of "\<lparr>onSearch = Some ''cb'', title = None, initialSearchQuery = None,
              description = None\<rparr>"
            "\<lparr>searchQuery = ''foo'', isCreateModalOpen = True\<rparr>" "\<lparr>key = ''a''\<rparr>"]
    by simp
qed

section \<open>Properties of the user entry\<close>

text \<open>
  C8. For every user, the tree that \<^verbatim>\<open>NavUser\<close> returns holds the name and the email as
  texts and exactly one avatar image, whose source is the user's avatar string. When that
  source does not load, what is displayed is the fallback text \<^verbatim>\<open>CN\<close>, then the name and
  the email.
\<close>

theorem NavUser_renders_user:
  "name u \<in> set (texts (NavUser u))
   \<and> email u \<in> set (texts (NavUser u))
   \<and> filter (\<lambda>n. tag n = ''AvatarImage'') (nodes (NavUser u))
       = [Element ''AvatarImage'' [(''src'', avatar u), (''alt'', name u)] []]
   \<and> (\<not> loads (avatar u) \<longrightarrow>
        texts (display loads (NavUser u)) = [''CN'', name u, email u])"
  by (simp add: NavUser_def avatar_children_def image_loads_def)

theorem NavUser_renders_user_witness:
  "\<not> (\<lambda>s. s = ''/logo.png'') (avatar \<lparr>name = ''Ada Lovelace'', email = ''ada@example.com'',
                           avatar = ''/ada.png''\<rparr>)
   \<and> texts (display (\<lambda>s. s = ''/logo.png'')
        (NavUser \<lparr>name = ''Ada Lovelace'', email = ''ada@example.com'', avatar = ''/ada.png''\<rparr>))
      = [''CN'', ''Ada Lovelace'', ''ada@example.com'']
   \<and> filter (\<lambda>n. tag n = ''AvatarImage'')
        (nodes (NavUser \<lparr>name = ''Ada Lovelace'', email = ''ada@example.com'',
                         avatar = ''/ada.png''\<rparr>))
      = [Element ''AvatarImage'' [(''src'', ''/ada.png''), (''alt'', ''Ada Lovelace'')] []]"
proof -
  let ?u = "\<lparr>name = ''Ada Lovelace'', email = ''ada@example.com'', avatar = ''/ada.png''\<rparr>"
  have fails: "\<not> (\<lambda>s. s = ''/logo.png'') (avatar ?u)" by simp
  show ?thesis
    using fails NavUser_renders_user [of ?u "\<lambda>s. s = ''/logo.png''"]
    by simp
qed

end
